theory Spec2Isabelle
  imports Complex_Main
begin

section \<open>VoidGuard safety engine: values, descriptors and results\<close>

text \<open>
  The engine of \<^verbatim>\<open>src/services/VoidGuardService.js\<close> inspects a loosely typed
  JavaScript object. The values such an object can hold are modelled by \<open>jsval\<close>;
  numbers are exact reals (IEEE rounding and NaN are not modelled), objects are
  association lists of their own properties.
\<close>

datatype jsval =
    JUndefined
  | JNull
  | JBool bool
  | JNum real
  | JStr string
  | JArr "jsval list"
  | JObj "(string \<times> jsval) list"

text \<open>JavaScript truthiness, as used by \<^verbatim>\<open>!x\<close>, \<^verbatim>\<open>x || y\<close> and \<^verbatim>\<open>if (x)\<close>.\<close>

fun truthy :: "jsval \<Rightarrow> bool" where
  "truthy JUndefined = False"
| "truthy JNull = False"
| "truthy (JBool b) = b"
| "truthy (JNum n) = (n \<noteq> 0)"
| "truthy (JStr s) = (s \<noteq> [])"
| "truthy (JArr xs) = True"
| "truthy (JObj kvs) = True"

text \<open>Reading a property of \<^verbatim>\<open>null\<close> or \<^verbatim>\<open>undefined\<close> throws a TypeError.\<close>

fun nullish :: "jsval \<Rightarrow> bool" where
  "nullish JUndefined = True"
| "nullish JNull = True"
| "nullish v = False"

text \<open>
  \<open>getProp v k\<close> is the property read \<^verbatim>\<open>v.k\<close> on a value that is not nullish, for
  the property names the engine reads (flag names, \<^verbatim>\<open>enabled\<close>, \<^verbatim>\<open>conducted\<close>,
  \<^verbatim>\<open>length\<close>, \<^verbatim>\<open>regulatory\<close>): an object yields its own property or
  \<^verbatim>\<open>undefined\<close>, arrays and strings have a \<^verbatim>\<open>length\<close>, booleans and numbers have
  none of these properties.
\<close>

fun getProp :: "jsval \<Rightarrow> string \<Rightarrow> jsval" where
  "getProp (JObj kvs) k = (case map_of kvs k of Some v \<Rightarrow> v | None \<Rightarrow> JUndefined)"
| "getProp (JArr xs) k = (if k = ''length'' then JNum (real (length xs)) else JUndefined)"
| "getProp (JStr s) k = (if k = ''length'' then JNum (real (length s)) else JUndefined)"
| "getProp v k = JUndefined"

datatype exn = TypeError | InvalidInput
  \<comment> \<open>\<open>InvalidInput\<close> is the error the specification names; the source never raises it.\<close>

datatype severity = Warning | Error

datatype status = Pass | Warn | Fail

record check_issue =
  type :: severity
  message :: string

record check_result =
  score :: real
  checks :: "check_issue list"
  status :: status

type_synonym locals = "check_issue list \<times> real"
  \<comment> \<open>the two locals \<^verbatim>\<open>checks\<close> and \<^verbatim>\<open>score\<close> of a category check\<close>

text \<open>
  The body of every \<^verbatim>\<open>if (...) { checks.push({type, message}); score *= f; }\<close>.
\<close>

definition push_issue :: "severity \<Rightarrow> string \<Rightarrow> real \<Rightarrow> locals \<Rightarrow> locals" where
  "push_issue t m f st = (fst st @ [\<lparr>type = t, message = m\<rparr>], snd st * f)"

text \<open>
  The return statement shared by the seven checks:
  \<^verbatim>\<open>{ score: Math.max(score, 0), checks,
     status: score >= 0.8 ? 'pass' : score >= 0.6 ? 'warning' : 'fail' }\<close>.
  The status is computed from the local \<^verbatim>\<open>score\<close>, before the clamp.
\<close>

definition check_return :: "locals \<Rightarrow> check_result" where
  "check_return st =
     \<lparr>score = max (snd st) 0,
      checks = fst st,
      status = (if snd st \<ge> 0.8 then Pass else if snd st \<ge> 0.6 then Warn else Fail)\<rparr>"

subsection \<open>The seven category checks\<close>

text \<open>
  For each check, \<open>\<dots>_locals\<close> is the state of \<^verbatim>\<open>checks\<close> and \<^verbatim>\<open>score\<close> when the
  return statement is reached; the check itself throws on a nullish descriptor (its
  first property read) and otherwise returns \<open>check_return\<close> of these locals.
\<close>

definition checkEthicalGuidelines_locals :: "jsval \<Rightarrow> locals" where
  "checkEthicalGuidelines_locals aiSystem =
    (let st = ([], 1);
         st = (if \<not> truthy (getProp aiSystem ''ethicalBoundaries'')
                  \<or> getProp (getProp aiSystem ''ethicalBoundaries'') ''length'' = JNum 0
               then push_issue Warning ''No ethical boundaries defined'' 0.8 st else st);
         st = (if \<not> truthy (getProp aiSystem ''harmPrevention'')
               then push_issue Error ''Harm prevention mechanisms not implemented'' 0.6 st else st);
         st = (if \<not> truthy (getProp aiSystem ''valuesAlignment'')
               then push_issue Warning ''Human values alignment not documented'' 0.9 st else st)
     in st)"

definition checkEthicalGuidelines :: "jsval \<Rightarrow> exn + check_result" where
  "checkEthicalGuidelines aiSystem =
    (if nullish aiSystem then Inl TypeError
     else Inr (check_return (checkEthicalGuidelines_locals aiSystem)))"

definition checkDataPrivacy_locals :: "jsval \<Rightarrow> locals" where
  "checkDataPrivacy_locals aiSystem =
    (let st = ([], 1);
         st = (if \<not> truthy (getProp aiSystem ''encryption'')
                  \<or> \<not> truthy (getProp (getProp aiSystem ''encryption'') ''enabled'')
               then push_issue Error ''Data encryption not enabled'' 0.5 st else st);
         st = (if \<not> truthy (getProp aiSystem ''dataMinimization'')
               then push_issue Warning ''Data minimization principles not applied'' 0.8 st else st);
         st = (if \<not> truthy (getProp aiSystem ''consentManagement'')
               then push_issue Error ''User consent management not implemented'' 0.6 st else st)
     in st)"

definition checkDataPrivacy :: "jsval \<Rightarrow> exn + check_result" where
  "checkDataPrivacy aiSystem =
    (if nullish aiSystem then Inl TypeError
     else Inr (check_return (checkDataPrivacy_locals aiSystem)))"

definition checkBias_locals :: "jsval \<Rightarrow> locals" where
  "checkBias_locals aiSystem =
    (let st = ([], 1);
         st = (if \<not> truthy (getProp aiSystem ''biasTesting'')
                  \<or> \<not> truthy (getProp (getProp aiSystem ''biasTesting'') ''conducted'')
               then push_issue Error ''Bias testing not conducted'' 0.4 st else st);
         st = (if \<not> truthy (getProp aiSystem ''fairnessMetrics'')
               then push_issue Warning ''Fairness metrics not defined'' 0.8 st else st);
         st = (if \<not> truthy (getProp aiSystem ''datasetDiversity'')
               then push_issue Warning ''Dataset diversity not validated'' 0.9 st else st)
     in st)"

definition checkBias :: "jsval \<Rightarrow> exn + check_result" where
  "checkBias aiSystem =
    (if nullish aiSystem then Inl TypeError
     else Inr (check_return (checkBias_locals aiSystem)))"

definition checkTransparency_locals :: "jsval \<Rightarrow> locals" where
  "checkTransparency_locals aiSystem =
    (let st = ([], 1);
         st = (if \<not> truthy (getProp aiSystem ''explainability'')
                  \<or> \<not> truthy (getProp (getProp aiSystem ''explainability'') ''enabled'')
               then push_issue Error ''AI explainability not implemented'' 0.5 st else st);
         st = (if \<not> truthy (getProp aiSystem ''decisionLogging'')
               then push_issue Warning ''Decision logging not implemented'' 0.8 st else st);
         st = (if \<not> truthy (getProp aiSystem ''modelDocumentation'')
               then push_issue Warning ''Model documentation incomplete'' 0.9 st else st)
     in st)"

definition checkTransparency :: "jsval \<Rightarrow> exn + check_result" where
  "checkTransparency aiSystem =
    (if nullish aiSystem then Inl TypeError
     else Inr (check_return (checkTransparency_locals aiSystem)))"

definition checkHumanControl_locals :: "jsval \<Rightarrow> locals" where
  "checkHumanControl_locals aiSystem =
    (let st = ([], 1);
         st = (if \<not> truthy (getProp aiSystem ''humanOversight'')
                  \<or> \<not> truthy (getProp (getProp aiSystem ''humanOversight'') ''enabled'')
               then push_issue Error ''Human oversight not implemented'' 0.3 st else st);
         st = (if \<not> truthy (getProp aiSystem ''manualOverride'')
               then push_issue Error ''Manual override not available'' 0.5 st else st);
         st = (if \<not> truthy (getProp aiSystem ''escalationProcedures'')
               then push_issue Warning ''Escalation procedures not defined'' 0.9 st else st)
     in st)"

definition checkHumanControl :: "jsval \<Rightarrow> exn + check_result" where
  "checkHumanControl aiSystem =
    (if nullish aiSystem then Inl TypeError
     else Inr (check_return (checkHumanControl_locals aiSystem)))"

definition checkRobustness_locals :: "jsval \<Rightarrow> locals" where
  "checkRobustness_locals aiSystem =
    (let st = ([], 1);
         st = (if \<not> truthy (getProp aiSystem ''adversarialTesting'')
                  \<or> \<not> truthy (getProp (getProp aiSystem ''adversarialTesting'') ''conducted'')
               then push_issue Warning ''Adversarial testing not conducted'' 0.8 st else st);
         st = (if \<not> truthy (getProp aiSystem ''errorHandling'')
               then push_issue Error ''Error handling mechanisms not implemented'' 0.6 st else st);
         st = (if \<not> truthy (getProp aiSystem ''performanceMonitoring'')
               then push_issue Warning ''Performance monitoring not implemented'' 0.9 st else st)
     in st)"

definition checkRobustness :: "jsval \<Rightarrow> exn + check_result" where
  "checkRobustness aiSystem =
    (if nullish aiSystem then Inl TypeError
     else Inr (check_return (checkRobustness_locals aiSystem)))"

definition checkAccountability_locals :: "jsval \<Rightarrow> locals" where
  "checkAccountability_locals aiSystem =
    (let st = ([], 1);
         st = (if \<not> truthy (getProp aiSystem ''responsibilityMatrix'')
               then push_issue Error ''Responsibility matrix not defined'' 0.6 st else st);
         st = (if \<not> truthy (getProp aiSystem ''auditTrail'')
                  \<or> \<not> truthy (getProp (getProp aiSystem ''auditTrail'') ''enabled'')
               then push_issue Error ''Audit trail not enabled'' 0.5 st else st);
         st = (if \<not> truthy (getProp aiSystem ''incidentResponse'')
               then push_issue Warning ''Incident response procedures not defined'' 0.8 st else st)
     in st)"

definition checkAccountability :: "jsval \<Rightarrow> exn + check_result" where
  "checkAccountability aiSystem =
    (if nullish aiSystem then Inl TypeError
     else Inr (check_return (checkAccountability_locals aiSystem)))"

subsection \<open>Running the checks\<close>

type_synonym safety_checks = "(string \<times> check_result) list"
  \<comment> \<open>the object \<^verbatim>\<open>safetyChecks\<close>, as its entries in insertion order\<close>

definition bindE :: "exn + 'a \<Rightarrow> ('a \<Rightarrow> exn + 'b) \<Rightarrow> exn + 'b" where
  "bindE m f = (case m of Inl e \<Rightarrow> Inl e | Inr x \<Rightarrow> f x)"

text \<open>
  \<^verbatim>\<open>performSafetyChecks\<close> runs the seven checks, then reads
  \<^verbatim>\<open>context.regulatory\<close>. When that is truthy it calls
  \<^verbatim>\<open>this.checkRegulatoryCompliance\<close>, a method the class does not define: the
  call throws a TypeError.
\<close>

definition performSafetyChecks :: "jsval \<Rightarrow> jsval \<Rightarrow> exn + safety_checks" where
  "performSafetyChecks aiSystem context =
    bindE (checkEthicalGuidelines aiSystem) (\<lambda>eg.
    bindE (checkDataPrivacy aiSystem) (\<lambda>dp.
    bindE (checkBias aiSystem) (\<lambda>bi.
    bindE (checkTransparency aiSystem) (\<lambda>tr.
    bindE (checkHumanControl aiSystem) (\<lambda>hc.
    bindE (checkRobustness aiSystem) (\<lambda>ro.
    bindE (checkAccountability aiSystem) (\<lambda>ac.
      let checks = [(''ethicalGuidelines'', eg), (''dataPrivacy'', dp), (''bias'', bi),
                    (''transparency'', tr), (''humanControl'', hc), (''robustness'', ro),
                    (''accountability'', ac)]
      in if nullish context then Inl TypeError
         else if truthy (getProp context ''regulatory'') then Inl TypeError
         else Inr checks)))))))"

subsection \<open>Compliance score\<close>

definition weights :: "(string \<times> real) list" where
  "weights =
    [(''ethicalGuidelines'', 0.2), (''dataPrivacy'', 0.15), (''bias'', 0.15),
     (''transparency'', 0.15), (''humanControl'', 0.2), (''robustness'', 0.1),
     (''accountability'', 0.05)]"

text \<open>
  The loop \<^verbatim>\<open>for (const [check, weight] of Object.entries(weights))\<close> with its two
  accumulators \<^verbatim>\<open>totalScore\<close> and \<^verbatim>\<open>totalWeight\<close>.
\<close>

fun weight_loop :: "safety_checks \<Rightarrow> (string \<times> real) list \<Rightarrow> real \<times> real \<Rightarrow> real \<times> real" where
  "weight_loop safetyChecks [] acc = acc"
| "weight_loop safetyChecks ((check, weight) # ws) (totalScore, totalWeight) =
     (case map_of safetyChecks check of
        Some r \<Rightarrow> weight_loop safetyChecks ws (totalScore + score r * weight, totalWeight + weight)
      | None \<Rightarrow> weight_loop safetyChecks ws (totalScore, totalWeight))"

definition calculateComplianceScore :: "safety_checks \<Rightarrow> real" where
  "calculateComplianceScore safetyChecks =
    (let (totalScore, totalWeight) = weight_loop safetyChecks weights (0, 0)
     in if totalWeight > 0 then totalScore / totalWeight else 0)"

subsection \<open>Risk assessment\<close>

datatype risk_level = Low | Medium | High

record risk_assessment =
  level :: risk_level
  criticalFailures :: nat
  warnings :: nat
  summary :: string

text \<open>The decimal numeral of a count, as the template string prints it.\<close>

fun string_of_nat :: "nat \<Rightarrow> string" where
  "string_of_nat n =
     (if n < 10 then [''0123456789'' ! n]
      else string_of_nat (n div 10) @ [''0123456789'' ! (n mod 10)])"

declare string_of_nat.simps [simp del]

definition assessRisk :: "jsval \<Rightarrow> safety_checks \<Rightarrow> risk_assessment" where
  "assessRisk aiSystem safetyChecks =
    (let criticalFailures =
           length (filter (\<lambda>check. status check = Fail
                              \<and> list_ex (\<lambda>c. type c = Error) (checks check))
                     (map snd safetyChecks));
         warnings =
           foldl (\<lambda>total check. total + length (filter (\<lambda>c. type c = Warning) (checks check)))
             0 (map snd safetyChecks);
         riskLevel =
           (if criticalFailures > 2 \<or> warnings > 5 then High
            else if criticalFailures > 0 \<or> warnings > 2 then Medium
            else Low)
     in \<lparr>level = riskLevel,
         criticalFailures = criticalFailures,
         warnings = warnings,
         summary = string_of_nat criticalFailures @ '' critical issues, ''
                   @ string_of_nat warnings @ '' warnings''\<rparr>)"

subsection \<open>Recommendations\<close>

datatype priority = PHigh | PMedium

record recommendation =
  priority :: priority
  category :: string
  issue :: string
  action :: string

definition actionMap :: "(string \<times> (string \<times> string) list) list" where
  "actionMap =
    [(''ethicalGuidelines'',
        [(''No ethical boundaries defined'',
            ''Define clear ethical boundaries and prohibited use cases''),
         (''Harm prevention mechanisms not implemented'',
            ''Implement content filtering and harm prevention systems''),
         (''Human values alignment not documented'',
            ''Document human values alignment methodology'')]),
     (''dataPrivacy'',
        [(''Data encryption not enabled'',
            ''Enable end-to-end encryption for all data processing''),
         (''User consent management not implemented'',
            ''Implement comprehensive consent management system''),
         (''Data minimization principles not applied'',
            ''Review and minimize data collection requirements'')]),
     (''humanControl'',
        [(''Human oversight not implemented'',
            ''Implement mandatory human oversight for critical decisions''),
         (''Manual override not available'',
            ''Add manual override capabilities for all automated decisions'')])]"

text \<open>
  \<^verbatim>\<open>actionMap[category]?.[issue] || 'Review and address this safety concern'\<close>, on the
  table's own entries.
\<close>

definition getRecommendedAction :: "string \<Rightarrow> string \<Rightarrow> string" where
  "getRecommendedAction cat iss =
    (case map_of actionMap cat of
       None \<Rightarrow> ''Review and address this safety concern''
     | Some m \<Rightarrow>
        (case map_of m iss of
           None \<Rightarrow> ''Review and address this safety concern''
         | Some a \<Rightarrow> if a \<noteq> [] then a else ''Review and address this safety concern''))"

text \<open>
  The two \<^verbatim>\<open>Object.entries(safetyChecks).forEach\<close> passes, each pushing onto
  \<^verbatim>\<open>recommendations\<close>. The parameter \<^verbatim>\<open>riskAssessment\<close> is not read.
\<close>

definition generateRecommendations :: "safety_checks \<Rightarrow> risk_assessment \<Rightarrow> recommendation list" where
  "generateRecommendations safetyChecks riskAssessment =
    (let recommendations = [];
         recommendations =
           foldl (\<lambda>recs (cat, chk).
                    if status chk = Fail then
                      foldl (\<lambda>recs i.
                               recs @ [\<lparr>priority = PHigh, category = cat,
                                        issue = message i,
                                        action = getRecommendedAction cat (message i)\<rparr>])
                        recs (filter (\<lambda>c. type c = Error) (checks chk))
                    else recs)
             recommendations safetyChecks;
         recommendations =
           foldl (\<lambda>recs (cat, chk).
                    foldl (\<lambda>recs w.
                             recs @ [\<lparr>priority = PMedium, category = cat,
                                      issue = message w,
                                      action = getRecommendedAction cat (message w)\<rparr>])
                      recs (filter (\<lambda>c. type c = Warning) (checks chk)))
             recommendations safetyChecks
     in recommendations)"

subsection \<open>Audit log\<close>

datatype verdict = Compliant | NonCompliant

record audit_summary =
  res_status :: verdict
  res_score :: real
  res_riskLevel :: risk_level

text \<open>
  The event handed to \<^verbatim>\<open>logAuditEvent\<close>; an absent (falsy) \<^verbatim>\<open>timestamp\<close> is the
  empty string. The stored entry is \<^verbatim>\<open>{...event, id, timestamp}\<close>.
\<close>

record event =
  ev_type :: string
  ev_validationId :: string
  ev_result :: audit_summary
  ev_timestamp :: string

record audit_event = event +
  ev_id :: string

text \<open>
  \<open>uuid\<close> is the value of \<^verbatim>\<open>uuidv4()\<close> and \<open>now\<close> that of
  \<^verbatim>\<open>new Date().toISOString()\<close> at the call; \<^verbatim>\<open>slice(-1000)\<close> keeps the last 1000
  entries.
\<close>

definition logAuditEvent :: "string \<Rightarrow> string \<Rightarrow> event \<Rightarrow> audit_event list \<Rightarrow> audit_event list" where
  "logAuditEvent uuid now e auditLog =
    (let auditLog = auditLog @
           [\<lparr>ev_type = ev_type e, ev_validationId = ev_validationId e, ev_result = ev_result e,
             ev_timestamp = (if ev_timestamp e \<noteq> [] then ev_timestamp e else now),
             ev_id = uuid\<rparr>]
     in if length auditLog > 1000 then drop (length auditLog - 1000) auditLog else auditLog)"

record filters =
  f_type :: string
  f_startDate :: string
  f_endDate :: string

text \<open>
  \<open>parseDate\<close> stands for \<^verbatim>\<open>new Date(s)\<close> read as a number of milliseconds;
  \<open>None\<close> is an invalid date, whose comparisons are all false. An absent (falsy) filter
  is the empty string.
\<close>

definition date_ge :: "int option \<Rightarrow> int option \<Rightarrow> bool" where
  "date_ge a b = (case (a, b) of (Some x, Some y) \<Rightarrow> x \<ge> y | _ \<Rightarrow> False)"

definition getAuditLog :: "(string \<Rightarrow> int option) \<Rightarrow> filters \<Rightarrow> audit_event list \<Rightarrow> audit_event list" where
  "getAuditLog parseDate fs auditLog =
    (let log = auditLog;
         log = (if f_type fs \<noteq> [] then filter (\<lambda>e. ev_type e = f_type fs) log else log);
         log = (if f_startDate fs \<noteq> []
                then filter (\<lambda>e. date_ge (parseDate (ev_timestamp e)) (parseDate (f_startDate fs))) log
                else log);
         log = (if f_endDate fs \<noteq> []
                then filter (\<lambda>e. date_ge (parseDate (f_endDate fs)) (parseDate (ev_timestamp e))) log
                else log)
     in log)"

subsection \<open>The engine\<close>

record config =
  complianceThreshold :: real
  auditEnabled :: bool
  transparencyLevel :: string

record engine =
  config :: config
  auditLog :: "audit_event list"

text \<open>
  The constructor. \<open>opts\<close> is its argument (a key that is not given is \<open>None\<close>),
  \<open>env\<close> the three environment variables, the threshold already read by
  \<^verbatim>\<open>parseFloat\<close> (\<open>None\<close> when unset or not a number). The spread \<^verbatim>\<open>...config\<close>
  comes last, so a key that is given wins even when its value is falsy.
\<close>

record engine_options =
  opt_complianceThreshold :: "real option"
  opt_auditEnabled :: "bool option"
  opt_transparencyLevel :: "string option"

record process_env =
  VOIDGUARD_COMPLIANCE_THRESHOLD :: "real option"
  VOIDGUARD_AUDIT_ENABLED :: "string option"
  VOIDGUARD_TRANSPARENCY_LEVEL :: "string option"

definition VoidGuardSafetyEngine :: "engine_options \<Rightarrow> process_env \<Rightarrow> engine" where
  "VoidGuardSafetyEngine opts env =
    \<lparr>config =
       \<lparr>complianceThreshold =
          (case opt_complianceThreshold opts of
             Some v \<Rightarrow> v
           | None \<Rightarrow>
              (case VOIDGUARD_COMPLIANCE_THRESHOLD env of
                 Some t \<Rightarrow> if t \<noteq> 0 then t else 0.95
               | None \<Rightarrow> 0.95)),
        auditEnabled =
          (case opt_auditEnabled opts of
             Some b \<Rightarrow> b
           | None \<Rightarrow> VOIDGUARD_AUDIT_ENABLED env = Some ''true''),
        transparencyLevel =
          (case opt_transparencyLevel opts of
             Some l \<Rightarrow> l
           | None \<Rightarrow>
              (case VOIDGUARD_TRANSPARENCY_LEVEL env of
                 Some l \<Rightarrow> if l \<noteq> [] then l else ''full''
               | None \<Rightarrow> ''full''))\<rparr>,
     auditLog = []\<rparr>"

record metadata =
  validatorVersion :: string
  md_transparencyLevel :: string
  md_auditEnabled :: bool

record validation_result =
  validationId :: string
  timestamp :: string
  systemId :: jsval
  safetyStatus :: verdict
  complianceScore :: real
  safetyChecks :: safety_checks
  riskAssessment :: risk_assessment
  recommendations :: "recommendation list"
  metadata :: metadata

text \<open>
  \<^verbatim>\<open>validateSafety\<close>. The two \<^verbatim>\<open>uuidv4()\<close> values and the two clock readings are
  arguments; the engine is passed in and returned. The first statement after them,
  the \<^verbatim>\<open>logger.info\<close> call, reads \<^verbatim>\<open>aiSystem.id\<close> and so throws on a nullish
  descriptor; the \<^verbatim>\<open>catch\<close> block rethrows. An omitted context is \<^verbatim>\<open>{}\<close>.
  Writing to the logger is not modelled.
\<close>

definition validateSafety ::
  "engine \<Rightarrow> string \<Rightarrow> string \<Rightarrow> string \<Rightarrow> string \<Rightarrow> jsval \<Rightarrow> jsval
     \<Rightarrow> exn + (validation_result \<times> engine)" where
  "validateSafety this vid ts eid now aiSystem context0 =
    (let context = (if context0 = JUndefined then JObj [] else context0)
     in if nullish aiSystem then Inl TypeError
        else bindE (performSafetyChecks aiSystem context) (\<lambda>sc.
          let cs = calculateComplianceScore sc;
              ra = assessRisk aiSystem sc;
              result =
                \<lparr>validationId = vid,
                 timestamp = ts,
                 systemId = getProp aiSystem ''id'',
                 safetyStatus =
                   (if cs \<ge> complianceThreshold (config this) then Compliant else NonCompliant),
                 complianceScore = cs,
                 safetyChecks = sc,
                 riskAssessment = ra,
                 recommendations = generateRecommendations sc ra,
                 metadata =
                   \<lparr>validatorVersion = ''1.0.0'',
                    md_transparencyLevel = transparencyLevel (config this),
                    md_auditEnabled = auditEnabled (config this)\<rparr>\<rparr>;
              this' =
                (if auditEnabled (config this)
                 then this\<lparr>auditLog :=
                        logAuditEvent eid now
                          \<lparr>ev_type = ''safety_validation'',
                           ev_validationId = vid,
                           ev_result =
                             \<lparr>res_status = safetyStatus result,
                              res_score = complianceScore result,
                              res_riskLevel = level (riskAssessment result)\<rparr>,
                           ev_timestamp = ts\<rparr>
                          (auditLog this)\<rparr>
                 else this)
          in Inr (result, this')))"

section \<open>The specification's reading of the checks\<close>

text \<open>
  The threshold rule of the specification: pass from 0.8, warning from 0.6, fail below.
\<close>

definition status_of :: "real \<Rightarrow> status" where
  "status_of s = (if s \<ge> 0.8 then Pass else if s \<ge> 0.6 then Warn else Fail)"

text \<open>
  One row of the specification's table of sub-conditions: the test that finds the
  flag absent or disabled, the penalty factor, the severity and the message of the
  issue. The rows below are the table's, with the tests and messages of the source.
\<close>

record rule =
  absent :: "jsval \<Rightarrow> bool"
  penalty :: real
  rule_severity :: severity
  rule_message :: string

definition flag_absent :: "string \<Rightarrow> jsval \<Rightarrow> bool" where
  "flag_absent f d = (\<not> truthy (getProp d f))"

definition flag_disabled :: "string \<Rightarrow> string \<Rightarrow> jsval \<Rightarrow> bool" where
  "flag_disabled f sub d =
     (\<not> truthy (getProp d f) \<or> \<not> truthy (getProp (getProp d f) sub))"

definition list_empty :: "string \<Rightarrow> jsval \<Rightarrow> bool" where
  "list_empty f d = (\<not> truthy (getProp d f) \<or> getProp (getProp d f) ''length'' = JNum 0)"

text \<open>
  A check as the specification describes it: start from 1, multiply by the penalty of
  every failing row in order, one issue per failing row, clamp at 0, status by the
  threshold rule.
\<close>

definition table_check :: "rule list \<Rightarrow> jsval \<Rightarrow> check_result" where
  "table_check rules d =
     (let failing = filter (\<lambda>r. absent r d) rules;
          s = max (foldl (\<lambda>acc r. acc * penalty r) 1 failing) 0
      in \<lparr>score = s,
          checks = map (\<lambda>r. \<lparr>type = rule_severity r, message = rule_message r\<rparr>) failing,
          status = status_of s\<rparr>)"

definition ethicalGuidelines_rules :: "rule list" where
  "ethicalGuidelines_rules =
    [\<lparr>absent = list_empty ''ethicalBoundaries'', penalty = 0.8, rule_severity = Warning,
      rule_message = ''No ethical boundaries defined''\<rparr>,
     \<lparr>absent = flag_absent ''harmPrevention'', penalty = 0.6, rule_severity = Error,
      rule_message = ''Harm prevention mechanisms not implemented''\<rparr>,
     \<lparr>absent = flag_absent ''valuesAlignment'', penalty = 0.9, rule_severity = Warning,
      rule_message = ''Human values alignment not documented''\<rparr>]"

definition dataPrivacy_rules :: "rule list" where
  "dataPrivacy_rules =
    [\<lparr>absent = flag_disabled ''encryption'' ''enabled'', penalty = 0.5, rule_severity = Error,
      rule_message = ''Data encryption not enabled''\<rparr>,
     \<lparr>absent = flag_absent ''dataMinimization'', penalty = 0.8, rule_severity = Warning,
      rule_message = ''Data minimization principles not applied''\<rparr>,
     \<lparr>absent = flag_absent ''consentManagement'', penalty = 0.6, rule_severity = Error,
      rule_message = ''User consent management not implemented''\<rparr>]"

definition bias_rules :: "rule list" where
  "bias_rules =
    [\<lparr>absent = flag_disabled ''biasTesting'' ''conducted'', penalty = 0.4, rule_severity = Error,
      rule_message = ''Bias testing not conducted''\<rparr>,
     \<lparr>absent = flag_absent ''fairnessMetrics'', penalty = 0.8, rule_severity = Warning,
      rule_message = ''Fairness metrics not defined''\<rparr>,
     \<lparr>absent = flag_absent ''datasetDiversity'', penalty = 0.9, rule_severity = Warning,
      rule_message = ''Dataset diversity not validated''\<rparr>]"

definition transparency_rules :: "rule list" where
  "transparency_rules =
    [\<lparr>absent = flag_disabled ''explainability'' ''enabled'', penalty = 0.5, rule_severity = Error,
      rule_message = ''AI explainability not implemented''\<rparr>,
     \<lparr>absent = flag_absent ''decisionLogging'', penalty = 0.8, rule_severity = Warning,
      rule_message = ''Decision logging not implemented''\<rparr>,
     \<lparr>absent = flag_absent ''modelDocumentation'', penalty = 0.9, rule_severity = Warning,
      rule_message = ''Model documentation incomplete''\<rparr>]"

definition humanControl_rules :: "rule list" where
  "humanControl_rules =
    [\<lparr>absent = flag_disabled ''humanOversight'' ''enabled'', penalty = 0.3, rule_severity = Error,
      rule_message = ''Human oversight not implemented''\<rparr>,
     \<lparr>absent = flag_absent ''manualOverride'', penalty = 0.5, rule_severity = Error,
      rule_message = ''Manual override not available''\<rparr>,
     \<lparr>absent = flag_absent ''escalationProcedures'', penalty = 0.9, rule_severity = Warning,
      rule_message = ''Escalation procedures not defined''\<rparr>]"

definition robustness_rules :: "rule list" where
  "robustness_rules =
    [\<lparr>absent = flag_disabled ''adversarialTesting'' ''conducted'', penalty = 0.8,
      rule_severity = Warning, rule_message = ''Adversarial testing not conducted''\<rparr>,
     \<lparr>absent = flag_absent ''errorHandling'', penalty = 0.6, rule_severity = Error,
      rule_message = ''Error handling mechanisms not implemented''\<rparr>,
     \<lparr>absent = flag_absent ''performanceMonitoring'', penalty = 0.9, rule_severity = Warning,
      rule_message = ''Performance monitoring not implemented''\<rparr>]"

definition accountability_rules :: "rule list" where
  "accountability_rules =
    [\<lparr>absent = flag_absent ''responsibilityMatrix'', penalty = 0.6, rule_severity = Error,
      rule_message = ''Responsibility matrix not defined''\<rparr>,
     \<lparr>absent = flag_disabled ''auditTrail'' ''enabled'', penalty = 0.5, rule_severity = Error,
      rule_message = ''Audit trail not enabled''\<rparr>,
     \<lparr>absent = flag_absent ''incidentResponse'', penalty = 0.8, rule_severity = Warning,
      rule_message = ''Incident response procedures not defined''\<rparr>]"

text \<open>
  The clamp is inert on a check's outcome \<open>res\<close> reached with locals \<open>st\<close>: the check
  returned, its score is the local score itself, lies in \<open>[0.135, 1]\<close> and so is
  positive, and the status the source took from the local score is the one the
  threshold rule gives for the returned score.
\<close>

definition clamp_inert :: "exn + check_result \<Rightarrow> locals \<Rightarrow> bool" where
  "clamp_inert res st =
     (case res of
        Inl e \<Rightarrow> False
      | Inr r \<Rightarrow> score r = snd st \<and> 0 < score r \<and> 135 / 1000 \<le> score r \<and> score r \<le> 1
                 \<and> status r = status_of (score r))"

section \<open>The specification's aggregates\<close>

text \<open>
  The specification's compliance score: the weighted mean of the scores of the
  categories present, normalised by the sum of their weights, and 0 when none is present.
\<close>

definition present :: "safety_checks \<Rightarrow> (string \<times> real) list" where
  "present sc = filter (\<lambda>(c, w). map_of sc c \<noteq> None) weights"

definition normalizer :: "safety_checks \<Rightarrow> real" where
  "normalizer sc = sum_list (map snd (present sc))"

definition weighted_mean :: "safety_checks \<Rightarrow> real" where
  "weighted_mean sc =
     (if present sc = [] then 0
      else sum_list (map (\<lambda>(c, w). w * score (the (map_of sc c))) (present sc)) / normalizer sc)"

text \<open>A sample of category results: bias failed on one error, robustness has one warning.\<close>

definition sample_checks :: safety_checks where
  "sample_checks =
    [(''ethicalGuidelines'', \<lparr>score = 1, checks = [], status = Pass\<rparr>),
     (''dataPrivacy'', \<lparr>score = 1, checks = [], status = Pass\<rparr>),
     (''bias'', \<lparr>score = 4 / 10,
                checks = [\<lparr>type = Error, message = ''Bias testing not conducted''\<rparr>],
                status = Fail\<rparr>),
     (''transparency'', \<lparr>score = 1, checks = [], status = Pass\<rparr>),
     (''humanControl'', \<lparr>score = 1, checks = [], status = Pass\<rparr>),
     (''robustness'', \<lparr>score = 8 / 10,
                      checks = [\<lparr>type = Warning, message = ''Adversarial testing not conducted''\<rparr>],
                      status = Pass\<rparr>),
     (''accountability'', \<lparr>score = 1, checks = [], status = Pass\<rparr>)]"

text \<open>
  The specification's counts: the categories that failed and hold an error issue, and
  the warning issues of all categories.
\<close>

definition criticalFailureCount :: "safety_checks \<Rightarrow> nat" where
  "criticalFailureCount sc =
     length (filter (\<lambda>(c, r). status r = Fail \<and> (\<exists>i \<in> set (checks r). type i = Error)) sc)"

definition warningCount :: "safety_checks \<Rightarrow> nat" where
  "warningCount sc =
     length (filter (\<lambda>i. type i = Warning) (concat (map (\<lambda>(c, r). checks r) sc)))"

text \<open>
  The specification's two passes: the recommendations one category contributes to
  the first pass and to the second.
\<close>

definition mk_rec :: "priority \<Rightarrow> string \<Rightarrow> check_issue \<Rightarrow> recommendation" where
  "mk_rec p c i =
     \<lparr>priority = p, category = c, issue = message i,
      action = getRecommendedAction c (message i)\<rparr>"

definition high_recs :: "string \<times> check_result \<Rightarrow> recommendation list" where
  "high_recs e =
     (if status (snd e) = Fail
      then map (mk_rec PHigh (fst e)) (filter (\<lambda>i. type i = Error) (checks (snd e)))
      else [])"

definition medium_recs :: "string \<times> check_result \<Rightarrow> recommendation list" where
  "medium_recs e =
     map (mk_rec PMedium (fst e)) (filter (\<lambda>i. type i = Warning) (checks (snd e)))"

text \<open>
  A category that passed although it holds an error issue, beside a failed one
  and one with a warning only.
\<close>

definition mixed_checks :: safety_checks where
  "mixed_checks =
    [(''ethicalGuidelines'',
        \<lparr>score = 9 / 10,
         checks = [\<lparr>type = Error, message = ''Harm prevention mechanisms not implemented''\<rparr>],
         status = Pass\<rparr>),
     (''bias'',
        \<lparr>score = 4 / 10,
         checks = [\<lparr>type = Error, message = ''Bias testing not conducted''\<rparr>],
         status = Fail\<rparr>),
     (''robustness'',
        \<lparr>score = 8 / 10,
         checks = [\<lparr>type = Warning, message = ''Adversarial testing not conducted''\<rparr>],
         status = Pass\<rparr>)]"

text \<open>
  A sequence of appends. Each element carries the identifier and the clock reading
  the call draws together with the event; \<open>entry\<close> is the entry the call pushes.
\<close>

definition entry :: "string \<times> string \<times> event \<Rightarrow> audit_event" where
  "entry x =
     (case x of (uuid, now, e) \<Rightarrow>
        \<lparr>ev_type = ev_type e, ev_validationId = ev_validationId e, ev_result = ev_result e,
         ev_timestamp = (if ev_timestamp e \<noteq> [] then ev_timestamp e else now),
         ev_id = uuid\<rparr>)"

fun appends :: "(string \<times> string \<times> event) list \<Rightarrow> audit_event list \<Rightarrow> audit_event list" where
  "appends [] al = al"
| "appends ((uuid, now, e) # rest) al = appends rest (logAuditEvent uuid now e al)"

definition no_filters :: filters where
  "no_filters = \<lparr>f_type = [], f_startDate = [], f_endDate = []\<rparr>"

definition sample_event :: "string \<times> string \<times> event" where
  "sample_event =
     (''id-1'', ''2025-01-25T00:00:00.000Z'',
      \<lparr>ev_type = ''safety_validation'', ev_validationId = ''v-1'',
       ev_result = \<lparr>res_status = Compliant, res_score = 1, res_riskLevel = Low\<rparr>,
       ev_timestamp = []\<rparr>)"

text \<open>
  A context the orchestration accepts: omitted, or an object whose \<^verbatim>\<open>regulatory\<close>
  entry is absent or falsy.
\<close>

definition plain_context :: "jsval \<Rightarrow> bool" where
  "plain_context ctx =
     (ctx = JUndefined \<or> (\<not> nullish ctx \<and> \<not> truthy (getProp ctx ''regulatory'')))"

text \<open>
  A fully-compliant descriptor: none of the 21 rows of the table fails on it. Every
  flag is truthy, \<^verbatim>\<open>ethicalBoundaries.length\<close> is not 0, the \<^verbatim>\<open>enabled\<close> property
  of encryption, explainability, humanOversight and auditTrail is truthy, and so is
  the \<^verbatim>\<open>conducted\<close> property of biasTesting and adversarialTesting.
\<close>

definition fully_compliant :: "jsval \<Rightarrow> bool" where
  "fully_compliant d =
     (\<not> list_empty ''ethicalBoundaries'' d
      \<and> \<not> flag_absent ''harmPrevention'' d
      \<and> \<not> flag_absent ''valuesAlignment'' d
      \<and> \<not> flag_disabled ''encryption'' ''enabled'' d
      \<and> \<not> flag_absent ''dataMinimization'' d
      \<and> \<not> flag_absent ''consentManagement'' d
      \<and> \<not> flag_disabled ''biasTesting'' ''conducted'' d
      \<and> \<not> flag_absent ''fairnessMetrics'' d
      \<and> \<not> flag_absent ''datasetDiversity'' d
      \<and> \<not> flag_disabled ''explainability'' ''enabled'' d
      \<and> \<not> flag_absent ''decisionLogging'' d
      \<and> \<not> flag_absent ''modelDocumentation'' d
      \<and> \<not> flag_disabled ''humanOversight'' ''enabled'' d
      \<and> \<not> flag_absent ''manualOverride'' d
      \<and> \<not> flag_absent ''escalationProcedures'' d
      \<and> \<not> flag_disabled ''adversarialTesting'' ''conducted'' d
      \<and> \<not> flag_absent ''errorHandling'' d
      \<and> \<not> flag_absent ''performanceMonitoring'' d
      \<and> \<not> flag_absent ''responsibilityMatrix'' d
      \<and> \<not> flag_disabled ''auditTrail'' ''enabled'' d
      \<and> \<not> flag_absent ''incidentResponse'' d)"

text \<open>
  A descriptor with all 21 flags set: the structured flags encryption,
  explainability, humanOversight and auditTrail are \<^verbatim>\<open>{enabled: true}\<close>, biasTesting
  and adversarialTesting are \<^verbatim>\<open>{conducted: true}\<close>.
\<close>

definition switch :: "string \<Rightarrow> jsval" where
  "switch k = JObj [(k, JBool True)]"

definition descriptor_conducted :: jsval where
  "descriptor_conducted =
    JObj
     [(''id'', JStr ''sys-1''),
      (''ethicalBoundaries'', JArr [JStr ''no deception'']),
      (''harmPrevention'', JBool True),
      (''valuesAlignment'', JBool True),
      (''encryption'', switch ''enabled''),
      (''dataMinimization'', JBool True),
      (''consentManagement'', JBool True),
      (''biasTesting'', switch ''conducted''),
      (''fairnessMetrics'', JBool True),
      (''datasetDiversity'', JBool True),
      (''explainability'', switch ''enabled''),
      (''decisionLogging'', JBool True),
      (''modelDocumentation'', JBool True),
      (''humanOversight'', switch ''enabled''),
      (''manualOverride'', JBool True),
      (''escalationProcedures'', JBool True),
      (''adversarialTesting'', switch ''conducted''),
      (''errorHandling'', JBool True),
      (''performanceMonitoring'', JBool True),
      (''responsibilityMatrix'', JBool True),
      (''auditTrail'', switch ''enabled''),
      (''incidentResponse'', JBool True)]"

text \<open>The engine built with no options and no environment variables.\<close>

definition default_engine :: engine where
  "default_engine =
     VoidGuardSafetyEngine
       \<lparr>opt_complianceThreshold = None, opt_auditEnabled = None, opt_transparencyLevel = None\<rparr>
       \<lparr>VOIDGUARD_COMPLIANCE_THRESHOLD = None, VOIDGUARD_AUDIT_ENABLED = None,
        VOIDGUARD_TRANSPARENCY_LEVEL = None\<rparr>"

definition clean_result :: check_result where
  "clean_result = \<lparr>score = 1, checks = [], status = Pass\<rparr>"

definition fallback_action :: string where
  "fallback_action = ''Review and address this safety concern''"

text \<open>The result of validating a descriptor that passes every test.\<close>

definition clean_validation :: "engine \<Rightarrow> string \<Rightarrow> string \<Rightarrow> jsval \<Rightarrow> validation_result" where
  "clean_validation this vid ts d =
     \<lparr>validationId = vid,
      timestamp = ts,
      systemId = getProp d ''id'',
      safetyStatus = (if 1 \<ge> complianceThreshold (config this) then Compliant else NonCompliant),
      complianceScore = 1,
      safetyChecks =
        [(''ethicalGuidelines'', clean_result), (''dataPrivacy'', clean_result),
         (''bias'', clean_result), (''transparency'', clean_result),
         (''humanControl'', clean_result), (''robustness'', clean_result),
         (''accountability'', clean_result)],
      riskAssessment =
        \<lparr>level = Low, criticalFailures = 0, warnings = 0,
         summary = ''0 critical issues, 0 warnings''\<rparr>,
      recommendations = [],
      metadata =
        \<lparr>validatorVersion = ''1.0.0'',
         md_transparencyLevel = transparencyLevel (config this),
         md_auditEnabled = auditEnabled (config this)\<rparr>\<rparr>"

section \<open>The checks against the table\<close>

lemmas table_unfold =
  check_return_def push_issue_def table_check_def status_of_def
  flag_absent_def flag_disabled_def list_empty_def Let_def

lemma checkEthicalGuidelines_table:
  "\<not> nullish d \<Longrightarrow> checkEthicalGuidelines d = Inr (table_check ethicalGuidelines_rules d)"
  by (simp add: checkEthicalGuidelines_def checkEthicalGuidelines_locals_def
      ethicalGuidelines_rules_def table_unfold)

lemma checkDataPrivacy_table:
  "\<not> nullish d \<Longrightarrow> checkDataPrivacy d = Inr (table_check dataPrivacy_rules d)"
  by (simp add: checkDataPrivacy_def checkDataPrivacy_locals_def
      dataPrivacy_rules_def table_unfold)

lemma checkBias_table:
  "\<not> nullish d \<Longrightarrow> checkBias d = Inr (table_check bias_rules d)"
  by (simp add: checkBias_def checkBias_locals_def bias_rules_def table_unfold)

lemma checkTransparency_table:
  "\<not> nullish d \<Longrightarrow> checkTransparency d = Inr (table_check transparency_rules d)"
  by (simp add: checkTransparency_def checkTransparency_locals_def
      transparency_rules_def table_unfold)

lemma checkHumanControl_table:
  "\<not> nullish d \<Longrightarrow> checkHumanControl d = Inr (table_check humanControl_rules d)"
  by (simp add: checkHumanControl_def checkHumanControl_locals_def
      humanControl_rules_def table_unfold)

lemma checkRobustness_table:
  "\<not> nullish d \<Longrightarrow> checkRobustness d = Inr (table_check robustness_rules d)"
  by (simp add: checkRobustness_def checkRobustness_locals_def
      robustness_rules_def table_unfold)

lemma checkAccountability_table:
  "\<not> nullish d \<Longrightarrow> checkAccountability d = Inr (table_check accountability_rules d)"
  by (simp add: checkAccountability_def checkAccountability_locals_def
      accountability_rules_def table_unfold)

section \<open>Bounds on the local score\<close>

lemma check_return_inert:
  "135 / 1000 \<le> snd st \<Longrightarrow> snd st \<le> 1 \<Longrightarrow> clamp_inert (Inr (check_return st)) st"
  by (simp add: clamp_inert_def check_return_def status_of_def)

lemma checkEthicalGuidelines_bounds:
  "135 / 1000 \<le> snd (checkEthicalGuidelines_locals d) \<and> snd (checkEthicalGuidelines_locals d) \<le> 1"
  by (simp add: checkEthicalGuidelines_locals_def push_issue_def Let_def)

lemma checkDataPrivacy_bounds:
  "135 / 1000 \<le> snd (checkDataPrivacy_locals d) \<and> snd (checkDataPrivacy_locals d) \<le> 1"
  by (simp add: checkDataPrivacy_locals_def push_issue_def Let_def)

lemma checkBias_bounds:
  "135 / 1000 \<le> snd (checkBias_locals d) \<and> snd (checkBias_locals d) \<le> 1"
  by (simp add: checkBias_locals_def push_issue_def Let_def)

lemma checkTransparency_bounds:
  "135 / 1000 \<le> snd (checkTransparency_locals d) \<and> snd (checkTransparency_locals d) \<le> 1"
  by (simp add: checkTransparency_locals_def push_issue_def Let_def)

lemma checkHumanControl_bounds:
  "135 / 1000 \<le> snd (checkHumanControl_locals d) \<and> snd (checkHumanControl_locals d) \<le> 1"
  by (simp add: checkHumanControl_locals_def push_issue_def Let_def)

lemma checkRobustness_bounds:
  "135 / 1000 \<le> snd (checkRobustness_locals d) \<and> snd (checkRobustness_locals d) \<le> 1"
  by (simp add: checkRobustness_locals_def push_issue_def Let_def)

lemma checkAccountability_bounds:
  "135 / 1000 \<le> snd (checkAccountability_locals d) \<and> snd (checkAccountability_locals d) \<le> 1"
  by (simp add: checkAccountability_locals_def push_issue_def Let_def)

section \<open>The weighted mean\<close>

lemma weight_loop_sums:
  "weight_loop sc ws (a, b) =
     (a + sum_list (map (\<lambda>(c, w). w * score (the (map_of sc c)))
                     (filter (\<lambda>(c, w). map_of sc c \<noteq> None) ws)),
      b + sum_list (map snd (filter (\<lambda>(c, w). map_of sc c \<noteq> None) ws)))"
  by (induction ws arbitrary: a b) (auto simp: algebra_simps)

lemma weights_positive: "\<forall>(c, w) \<in> set weights. 0 < w"
  by (simp add: weights_def)

lemma sum_list_pos_filter:
  fixes ws :: "(string \<times> real) list"
  assumes "\<forall>(c, w) \<in> set ws. 0 < w" and "filter P ws \<noteq> []"
  shows "0 < sum_list (map snd (filter P ws))"
  using assms
proof (induction ws)
  case Nil
  then show ?case by simp
next
  case (Cons x xs)
  obtain c w where x: "x = (c, w)" by (cases x)
  have nonneg: "0 \<le> sum_list (map snd (filter P xs))"
    using Cons.prems(1) by (intro sum_list_nonneg) (auto simp: less_imp_le)
  show ?case
  proof (cases "P x")
    case True
    with Cons.prems(1) x nonneg show ?thesis by (auto intro: add_pos_nonneg)
  next
    case False
    with Cons show ?thesis by simp
  qed
qed

lemma normalizer_pos: "present sc \<noteq> [] \<Longrightarrow> 0 < normalizer sc"
  unfolding normalizer_def present_def
  by (rule sum_list_pos_filter [OF weights_positive])

lemma calculateComplianceScore_mean: "calculateComplianceScore sc = weighted_mean sc"
proof (cases "present sc = []")
  case True
  then show ?thesis
    by (simp add: calculateComplianceScore_def weight_loop_sums weighted_mean_def present_def)
next
  case False
  from normalizer_pos [OF False] False show ?thesis
    by (simp add: calculateComplianceScore_def weight_loop_sums weighted_mean_def
        present_def normalizer_def)
qed

lemma all_present_normalizer:
  assumes "\<forall>c \<in> set (map fst weights). map_of sc c \<noteq> None"
  shows "normalizer sc = 1"
proof -
  have "present sc = weights"
    unfolding present_def using assms by (intro filter_True) auto
  then show ?thesis by (simp add: normalizer_def weights_def)
qed

section \<open>Counting issues\<close>

lemma foldl_add_length:
  "foldl (\<lambda>total check. total + length (filter P (checks check))) n rs
     = n + length (filter P (concat (map checks rs)))"
  by (induction rs arbitrary: n) simp_all

lemma assessRisk_criticalFailures:
  "criticalFailures (assessRisk a sc) = criticalFailureCount sc"
proof -
  have "filter (\<lambda>check. status check = Fail \<and> list_ex (\<lambda>c. type c = Error) (checks check))
          (map snd sc)
        = map snd (filter (\<lambda>(c, r). status r = Fail \<and> (\<exists>i \<in> set (checks r). type i = Error)) sc)"
    by (induction sc) (auto simp: list_ex_iff)
  then show ?thesis
    by (simp add: assessRisk_def criticalFailureCount_def Let_def)
qed

lemma assessRisk_warnings:
  "warnings (assessRisk a sc) = warningCount sc"
proof -
  have "map checks (map snd sc) = map (\<lambda>(c, r). checks r) sc"
    by (induction sc) auto
  then show ?thesis
    by (simp add: assessRisk_def warningCount_def Let_def foldl_add_length del: map_map)
qed

lemma assessRisk_level:
  "level (assessRisk a sc) =
     (if criticalFailures (assessRisk a sc) > 2 \<or> warnings (assessRisk a sc) > 5 then High
      else if criticalFailures (assessRisk a sc) > 0 \<or> warnings (assessRisk a sc) > 2 then Medium
      else Low)"
  by (simp add: assessRisk_def Let_def)

section \<open>The two passes of the recommendation generator\<close>

lemma foldl_push:
  "foldl (\<lambda>recs i. recs @ [f i]) acc xs = acc @ map f xs"
  by (induction xs arbitrary: acc) simp_all

lemma foldl_append_concat:
  "foldl (\<lambda>recs e. recs @ f e) acc xs = acc @ concat (map f xs)"
  by (induction xs arbitrary: acc) simp_all

lemma first_pass:
  "foldl (\<lambda>recs (cat, chk).
            if status chk = Fail then
              foldl (\<lambda>recs i.
                       recs @ [\<lparr>priority = PHigh, category = cat, issue = message i,
                                action = getRecommendedAction cat (message i)\<rparr>])
                recs (filter (\<lambda>c. type c = Error) (checks chk))
            else recs) acc sc
   = acc @ concat (map high_recs sc)"
proof -
  have "(\<lambda>recs (cat, chk).
            if status chk = Fail then
              foldl (\<lambda>recs i.
                       recs @ [\<lparr>priority = PHigh, category = cat, issue = message i,
                                action = getRecommendedAction cat (message i)\<rparr>])
                recs (filter (\<lambda>c. type c = Error) (checks chk))
            else recs) = (\<lambda>recs e. recs @ high_recs e)"
    by (auto simp: fun_eq_iff foldl_push high_recs_def mk_rec_def)
  then show ?thesis by (simp only: foldl_append_concat)
qed

lemma second_pass:
  "foldl (\<lambda>recs (cat, chk).
            foldl (\<lambda>recs w.
                     recs @ [\<lparr>priority = PMedium, category = cat, issue = message w,
                              action = getRecommendedAction cat (message w)\<rparr>])
              recs (filter (\<lambda>c. type c = Warning) (checks chk))) acc sc
   = acc @ concat (map medium_recs sc)"
proof -
  have "(\<lambda>recs (cat, chk).
            foldl (\<lambda>recs w.
                     recs @ [\<lparr>priority = PMedium, category = cat, issue = message w,
                              action = getRecommendedAction cat (message w)\<rparr>])
              recs (filter (\<lambda>c. type c = Warning) (checks chk)))
        = (\<lambda>recs e. recs @ medium_recs e)"
    by (auto simp: fun_eq_iff foldl_push medium_recs_def mk_rec_def)
  then show ?thesis by (simp only: foldl_append_concat)
qed

lemma generateRecommendations_passes:
  "generateRecommendations sc ra = concat (map high_recs sc) @ concat (map medium_recs sc)"
  by (simp add: generateRecommendations_def Let_def first_pass second_pass)

lemma high_recs_priority: "r \<in> set (concat (map high_recs sc)) \<Longrightarrow> priority r = PHigh"
  by (auto simp: high_recs_def mk_rec_def split: if_splits)

lemma medium_recs_priority: "r \<in> set (concat (map medium_recs sc)) \<Longrightarrow> priority r = PMedium"
  by (auto simp: medium_recs_def mk_rec_def)

lemma high_recs_source:
  "r \<in> set (concat (map high_recs sc)) \<longleftrightarrow>
     (\<exists>(c, chk) \<in> set sc. status chk = Fail
        \<and> (\<exists>i \<in> set (checks chk). type i = Error \<and> r = mk_rec PHigh c i))"
  by (auto simp: high_recs_def split: if_splits) force+

lemma medium_recs_source:
  "r \<in> set (concat (map medium_recs sc)) \<longleftrightarrow>
     (\<exists>(c, chk) \<in> set sc. \<exists>w \<in> set (checks chk). type w = Warning \<and> r = mk_rec PMedium c w)"
  by (auto simp: medium_recs_def) force+

lemma highs_before_mediums:
  assumes hs: "\<forall>r \<in> set hs. priority r = PHigh"
    and ms: "\<forall>r \<in> set ms. priority r = PMedium"
    and i: "i < length (hs @ ms)" "priority ((hs @ ms) ! i) = PHigh"
    and j: "j < length (hs @ ms)" "priority ((hs @ ms) ! j) = PMedium"
  shows "i < j"
proof -
  have "i < length hs"
  proof (rule ccontr)
    assume "\<not> i < length hs"
    with i(1) have "(hs @ ms) ! i \<in> set ms" by (simp add: nth_append)
    with ms i(2) show False by auto
  qed
  moreover have "\<not> j < length hs"
  proof
    assume "j < length hs"
    then have "(hs @ ms) ! j \<in> set hs" by (simp add: nth_append)
    with hs j(2) show False by auto
  qed
  ultimately show ?thesis by simp
qed

section \<open>The bounded audit log\<close>

lemma logAuditEvent_entry:
  "logAuditEvent uuid now e al =
     drop (length al + 1 - 1000) (al @ [entry (uuid, now, e)])"
  by (simp add: logAuditEvent_def entry_def Let_def)

lemma logAuditEvent_length:
  "length al \<le> 1000 \<Longrightarrow> length (logAuditEvent uuid now e al) \<le> 1000"
  by (simp add: logAuditEvent_entry)

lemma appends_drop:
  "length al \<le> 1000 \<Longrightarrow>
   appends xs al = drop (length al + length xs - 1000) (al @ map entry xs)"
proof (induction xs arbitrary: al)
  case Nil
  then show ?case by simp
next
  case (Cons x xs)
  obtain uuid now e where x: "x = (uuid, now, e)" by (cases x)
  define k where "k = length al + 1 - 1000"
  define l where "l = logAuditEvent uuid now e al"
  have l: "l = drop k (al @ [entry x])"
    by (simp add: l_def k_def x logAuditEvent_entry)
  have k: "k \<le> 1" using Cons.prems by (simp add: k_def)
  have len: "length l = length al + 1 - k" by (simp add: l)
  then have "length l \<le> 1000" using Cons.prems by (simp add: k_def)
  from Cons.IH [OF this]
  have step: "appends xs l = drop (length l + length xs - 1000) (l @ map entry xs)" .
  have "k \<le> length al" by (simp add: k_def)
  then have app: "l @ map entry xs = drop k (al @ map entry (x # xs))"
    by (simp add: l)
  have idx: "length l + length xs - 1000 + k = length al + length (x # xs) - 1000"
    using Cons.prems by (simp add: len k_def)
  have "appends (x # xs) al = appends xs l" by (simp add: x l_def)
  also have "\<dots> = drop (length l + length xs - 1000) (drop k (al @ map entry (x # xs)))"
    by (simp only: step app)
  also have "\<dots> = drop (length al + length (x # xs) - 1000) (al @ map entry (x # xs))"
    by (simp only: drop_drop idx)
  finally show ?case .
qed

lemma getAuditLog_no_filters: "getAuditLog parseDate no_filters al = al"
  by (simp add: getAuditLog_def no_filters_def)

section \<open>Running a validation\<close>

lemma performSafetyChecks_inspectable:
  assumes "\<not> nullish d" and "\<not> nullish ctx" and "\<not> truthy (getProp ctx ''regulatory'')"
  shows "performSafetyChecks d ctx =
    Inr [(''ethicalGuidelines'', check_return (checkEthicalGuidelines_locals d)),
         (''dataPrivacy'', check_return (checkDataPrivacy_locals d)),
         (''bias'', check_return (checkBias_locals d)),
         (''transparency'', check_return (checkTransparency_locals d)),
         (''humanControl'', check_return (checkHumanControl_locals d)),
         (''robustness'', check_return (checkRobustness_locals d)),
         (''accountability'', check_return (checkAccountability_locals d))]"
  using assms
  by (simp add: performSafetyChecks_def bindE_def checkEthicalGuidelines_def
      checkDataPrivacy_def checkBias_def checkTransparency_def checkHumanControl_def
      checkRobustness_def checkAccountability_def)

lemma performSafetyChecks_regulatory:
  "truthy (getProp ctx ''regulatory'') \<Longrightarrow> performSafetyChecks d ctx = Inl TypeError"
  by (simp add: performSafetyChecks_def bindE_def checkEthicalGuidelines_def
      checkDataPrivacy_def checkBias_def checkTransparency_def checkHumanControl_def
      checkRobustness_def checkAccountability_def)

lemma plain_context_default:
  assumes "plain_context ctx"
  shows "\<not> nullish (if ctx = JUndefined then JObj [] else ctx)"
    and "\<not> truthy (getProp (if ctx = JUndefined then JObj [] else ctx) ''regulatory'')"
  using assms by (auto simp: plain_context_def)

lemma validateSafety_nullish:
  "nullish d \<Longrightarrow> validateSafety this vid ts eid now d ctx = Inl TypeError"
  by (simp add: validateSafety_def Let_def)

lemma validateSafety_returns:
  assumes "\<not> nullish d" and "plain_context ctx"
  shows "\<exists>res this'. validateSafety this vid ts eid now d ctx = Inr (res, this')"
  using assms(1) plain_context_default [OF assms(2)]
  by (simp add: validateSafety_def Let_def bindE_def performSafetyChecks_inspectable)

lemma fully_compliant_inspectable: "fully_compliant d \<Longrightarrow> \<not> nullish d"
  by (cases d) (simp_all add: fully_compliant_def flag_absent_def)

lemma fully_compliant_locals:
  assumes "fully_compliant d"
  shows "checkEthicalGuidelines_locals d = ([], 1)"
    and "checkDataPrivacy_locals d = ([], 1)"
    and "checkBias_locals d = ([], 1)"
    and "checkTransparency_locals d = ([], 1)"
    and "checkHumanControl_locals d = ([], 1)"
    and "checkRobustness_locals d = ([], 1)"
    and "checkAccountability_locals d = ([], 1)"
  using assms
  by (simp_all add: fully_compliant_def flag_absent_def flag_disabled_def list_empty_def
      checkEthicalGuidelines_locals_def checkDataPrivacy_locals_def checkBias_locals_def
      checkTransparency_locals_def checkHumanControl_locals_def checkRobustness_locals_def
      checkAccountability_locals_def Let_def)

lemma check_return_clean: "check_return ([], 1) = clean_result"
  by (simp add: check_return_def clean_result_def)

lemma performSafetyChecks_clean:
  assumes "fully_compliant d" and "plain_context ctx"
  shows "performSafetyChecks d (if ctx = JUndefined then JObj [] else ctx) =
    Inr [(''ethicalGuidelines'', clean_result), (''dataPrivacy'', clean_result),
         (''bias'', clean_result), (''transparency'', clean_result),
         (''humanControl'', clean_result), (''robustness'', clean_result),
         (''accountability'', clean_result)]"
  using performSafetyChecks_inspectable
    [OF fully_compliant_inspectable [OF assms(1)] plain_context_default [OF assms(2)]]
  by (simp only: fully_compliant_locals [OF assms(1)] check_return_clean)

lemma clean_score:
  "calculateComplianceScore
     [(''ethicalGuidelines'', clean_result), (''dataPrivacy'', clean_result),
      (''bias'', clean_result), (''transparency'', clean_result),
      (''humanControl'', clean_result), (''robustness'', clean_result),
      (''accountability'', clean_result)] = 1"
  by (simp add: calculateComplianceScore_def weights_def clean_result_def)

lemma clean_risk:
  "assessRisk d
     [(''ethicalGuidelines'', clean_result), (''dataPrivacy'', clean_result),
      (''bias'', clean_result), (''transparency'', clean_result),
      (''humanControl'', clean_result), (''robustness'', clean_result),
      (''accountability'', clean_result)]
   = \<lparr>level = Low, criticalFailures = 0, warnings = 0,
      summary = ''0 critical issues, 0 warnings''\<rparr>"
  by (simp add: assessRisk_def clean_result_def Let_def string_of_nat.simps)

lemma clean_recommendations:
  "generateRecommendations
     [(''ethicalGuidelines'', clean_result), (''dataPrivacy'', clean_result),
      (''bias'', clean_result), (''transparency'', clean_result),
      (''humanControl'', clean_result), (''robustness'', clean_result),
      (''accountability'', clean_result)] ra = []"
  by (simp add: generateRecommendations_def clean_result_def Let_def)

lemma getRecommendedAction_unmapped:
  "c \<notin> set (map fst actionMap) \<Longrightarrow> getRecommendedAction c m = fallback_action"
  by (simp add: getRecommendedAction_def fallback_action_def map_of_eq_None_iff [THEN iffD2])

lemma descriptor_conducted_flags: "fully_compliant descriptor_conducted"
  by (simp add: fully_compliant_def descriptor_conducted_def switch_def
      flag_absent_def flag_disabled_def list_empty_def)

lemma fully_compliant_tables:
  "fully_compliant d \<longleftrightarrow>
     list_all (\<lambda>r. \<not> absent r d)
       (ethicalGuidelines_rules @ dataPrivacy_rules @ bias_rules @ transparency_rules
        @ humanControl_rules @ robustness_rules @ accountability_rules)"
  by (simp add: fully_compliant_def ethicalGuidelines_rules_def dataPrivacy_rules_def
      bias_rules_def transparency_rules_def humanControl_rules_def robustness_rules_def
      accountability_rules_def)

lemma default_engine_config:
  "config default_engine =
     \<lparr>complianceThreshold = 95 / 100, auditEnabled = False, transparencyLevel = ''full''\<rparr>"
  by (simp add: default_engine_def VoidGuardSafetyEngine_def)

lemma plain_context_omitted: "plain_context JUndefined"
  by (simp add: plain_context_def)

lemma validateSafety_clean:
  assumes "fully_compliant d" and "plain_context ctx"
  shows "validateSafety this vid ts eid now d ctx =
    Inr (clean_validation this vid ts d,
         if auditEnabled (config this)
         then this\<lparr>auditLog :=
                logAuditEvent eid now
                  \<lparr>ev_type = ''safety_validation'', ev_validationId = vid,
                   ev_result =
                     \<lparr>res_status = safetyStatus (clean_validation this vid ts d),
                      res_score = 1, res_riskLevel = Low\<rparr>,
                   ev_timestamp = ts\<rparr>
                  (auditLog this)\<rparr>
         else this)"
  using fully_compliant_inspectable [OF assms(1)]
  by (simp add: validateSafety_def Let_def bindE_def performSafetyChecks_clean [OF assms]
      clean_score clean_risk clean_recommendations clean_validation_def)

section \<open>Claims\<close>

text \<open>
  C1. For every descriptor (a value that can be inspected, that is, not \<^verbatim>\<open>null\<close> or
  \<^verbatim>\<open>undefined\<close>), each of the seven category checks returns what the table gives:
  the score starts at 1 and is multiplied by the penalty of each failing
  sub-condition, one issue of the row's severity is appended per deduction, the
  score is clamped at 0, and the status is pass from 0.8, warning from 0.6, fail below.
\<close>

theorem category_checks_follow_table:
  assumes "\<not> nullish d"
  shows "checkEthicalGuidelines d = Inr (table_check ethicalGuidelines_rules d)
       \<and> checkDataPrivacy d = Inr (table_check dataPrivacy_rules d)
       \<and> checkBias d = Inr (table_check bias_rules d)
       \<and> checkTransparency d = Inr (table_check transparency_rules d)
       \<and> checkHumanControl d = Inr (table_check humanControl_rules d)
       \<and> checkRobustness d = Inr (table_check robustness_rules d)
       \<and> checkAccountability d = Inr (table_check accountability_rules d)"
  using assms
  by (simp only: checkEthicalGuidelines_table checkDataPrivacy_table checkBias_table
      checkTransparency_table checkHumanControl_table checkRobustness_table
      checkAccountability_table simp_thms)

theorem category_checks_follow_table_witness:
  "\<not> nullish (JObj [(''manualOverride'', JBool True)])
   \<and> checkHumanControl (JObj [(''manualOverride'', JBool True)])
       = Inr \<lparr>score = 27 / 100,
              checks = [\<lparr>type = Error, message = ''Human oversight not implemented''\<rparr>,
                        \<lparr>type = Warning, message = ''Escalation procedures not defined''\<rparr>],
              status = Fail\<rparr>"
  using category_checks_follow_table [of "JObj [(''manualOverride'', JBool True)]"]
  by (simp add: humanControl_rules_def table_unfold)

text \<open>
  C9. For every descriptor, the score of each of the seven checks is strictly
  positive and lies in \<open>[0.135, 1]\<close>, so the clamp \<^verbatim>\<open>Math.max(score, 0)\<close> returns the
  local score unchanged and the status taken from the unclamped score is the one the
  clamped score gives; 0.135 is reached by human control on a descriptor with no flags.
\<close>

theorem category_scores_positive_clamp_inert:
  assumes "\<not> nullish d"
  shows "clamp_inert (checkEthicalGuidelines d) (checkEthicalGuidelines_locals d)
       \<and> clamp_inert (checkDataPrivacy d) (checkDataPrivacy_locals d)
       \<and> clamp_inert (checkBias d) (checkBias_locals d)
       \<and> clamp_inert (checkTransparency d) (checkTransparency_locals d)
       \<and> clamp_inert (checkHumanControl d) (checkHumanControl_locals d)
       \<and> clamp_inert (checkRobustness d) (checkRobustness_locals d)
       \<and> clamp_inert (checkAccountability d) (checkAccountability_locals d)
       \<and> checkHumanControl_locals (JObj []) =
           ([\<lparr>type = Error, message = ''Human oversight not implemented''\<rparr>,
             \<lparr>type = Error, message = ''Manual override not available''\<rparr>,
             \<lparr>type = Warning, message = ''Escalation procedures not defined''\<rparr>], 135 / 1000)"
proof -
  have "clamp_inert (checkEthicalGuidelines d) (checkEthicalGuidelines_locals d)"
    using assms checkEthicalGuidelines_bounds [of d]
    by (simp add: checkEthicalGuidelines_def check_return_inert)
  moreover have "clamp_inert (checkDataPrivacy d) (checkDataPrivacy_locals d)"
    using assms checkDataPrivacy_bounds [of d]
    by (simp add: checkDataPrivacy_def check_return_inert)
  moreover have "clamp_inert (checkBias d) (checkBias_locals d)"
    using assms checkBias_bounds [of d]
    by (simp add: checkBias_def check_return_inert)
  moreover have "clamp_inert (checkTransparency d) (checkTransparency_locals d)"
    using assms checkTransparency_bounds [of d]
    by (simp add: checkTransparency_def check_return_inert)
  moreover have "clamp_inert (checkHumanControl d) (checkHumanControl_locals d)"
    using assms checkHumanControl_bounds [of d]
    by (simp add: checkHumanControl_def check_return_inert)
  moreover have "clamp_inert (checkRobustness d) (checkRobustness_locals d)"
    using assms checkRobustness_bounds [of d]
    by (simp add: checkRobustness_def check_return_inert)
  moreover have "clamp_inert (checkAccountability d) (checkAccountability_locals d)"
    using assms checkAccountability_bounds [of d]
    by (simp add: checkAccountability_def check_return_inert)
  moreover have "checkHumanControl_locals (JObj []) =
           ([\<lparr>type = Error, message = ''Human oversight not implemented''\<rparr>,
             \<lparr>type = Error, message = ''Manual override not available''\<rparr>,
             \<lparr>type = Warning, message = ''Escalation procedures not defined''\<rparr>], 135 / 1000)"
    by (simp add: checkHumanControl_locals_def push_issue_def Let_def)
  ultimately show ?thesis by blast
qed

theorem category_scores_positive_clamp_inert_witness:
  "\<not> nullish (JObj [])
   \<and> clamp_inert (checkHumanControl (JObj [])) (checkHumanControl_locals (JObj []))
   \<and> checkHumanControl (JObj []) =
       Inr \<lparr>score = 135 / 1000,
            checks = [\<lparr>type = Error, message = ''Human oversight not implemented''\<rparr>,
                      \<lparr>type = Error, message = ''Manual override not available''\<rparr>,
                      \<lparr>type = Warning, message = ''Escalation procedures not defined''\<rparr>],
            status = Fail\<rparr>"
proof -
  have h: "\<not> nullish (JObj [])" by simp
  have v: "checkHumanControl (JObj []) =
       Inr \<lparr>score = 135 / 1000,
            checks = [\<lparr>type = Error, message = ''Human oversight not implemented''\<rparr>,
                      \<lparr>type = Error, message = ''Manual override not available''\<rparr>,
                      \<lparr>type = Warning, message = ''Escalation procedures not defined''\<rparr>],
            status = Fail\<rparr>"
    by (simp add: checkHumanControl_def checkHumanControl_locals_def check_return_def
        push_issue_def Let_def)
  from category_scores_positive_clamp_inert [OF h] h v show ?thesis by blast
qed

text \<open>
  C2. For every set of category results, the compliance score is the weighted mean of
  the category scores under the fixed weights, normalised by the sum of the weights
  of the categories present; the normaliser is the loop's \<^verbatim>\<open>totalWeight\<close>, it is 1
  when all seven categories are present, and the score is 0 when none is present.
\<close>

theorem compliance_score_weighted_mean:
  "calculateComplianceScore sc = weighted_mean sc
   \<and> snd (weight_loop sc weights (0, 0)) = normalizer sc
   \<and> ((\<forall>c \<in> set (map fst weights). map_of sc c \<noteq> None) \<longrightarrow>
        normalizer sc = 1
        \<and> calculateComplianceScore sc =
            sum_list (map (\<lambda>(c, w). w * score (the (map_of sc c))) weights))
   \<and> ((\<forall>c \<in> set (map fst weights). map_of sc c = None) \<longrightarrow> calculateComplianceScore sc = 0)"
proof (intro conjI impI)
  show "calculateComplianceScore sc = weighted_mean sc"
    by (rule calculateComplianceScore_mean)
  show "snd (weight_loop sc weights (0, 0)) = normalizer sc"
    by (simp add: weight_loop_sums normalizer_def present_def)
next
  assume a: "\<forall>c \<in> set (map fst weights). map_of sc c \<noteq> None"
  then show n: "normalizer sc = 1" by (rule all_present_normalizer)
  have p: "present sc = weights"
    unfolding present_def using a by (intro filter_True) auto
  then have "present sc \<noteq> []" by (simp add: weights_def)
  with n p show "calculateComplianceScore sc =
            sum_list (map (\<lambda>(c, w). w * score (the (map_of sc c))) weights)"
    by (simp add: calculateComplianceScore_mean weighted_mean_def)
next
  assume "\<forall>c \<in> set (map fst weights). map_of sc c = None"
  then have "present sc = []"
    unfolding present_def by (auto simp: filter_empty_conv)
  then show "calculateComplianceScore sc = 0"
    by (simp add: calculateComplianceScore_mean weighted_mean_def)
qed

theorem compliance_score_weighted_mean_witness:
  "normalizer sample_checks = 1
   \<and> snd (weight_loop sample_checks weights (0, 0)) = 1
   \<and> calculateComplianceScore sample_checks = 89 / 100
   \<and> calculateComplianceScore [] = 0"
proof -
  have a: "\<forall>c \<in> set (map fst weights). map_of sample_checks c \<noteq> None"
    by (simp add: weights_def sample_checks_def)
  have e: "\<forall>c \<in> set (map fst weights). map_of [] c = (None :: check_result option)"
    by simp
  have v: "sum_list (map (\<lambda>(c, w). w * score (the (map_of sample_checks c))) weights) = 89 / 100"
    by (simp add: weights_def sample_checks_def)
  from compliance_score_weighted_mean [of sample_checks] a v
  have "normalizer sample_checks = 1 \<and> snd (weight_loop sample_checks weights (0, 0)) = 1
        \<and> calculateComplianceScore sample_checks = 89 / 100"
    by simp
  moreover from compliance_score_weighted_mean [of "[]"] e
  have "calculateComplianceScore [] = 0" by blast
  ultimately show ?thesis by blast
qed

text \<open>
  C3. For every set of category results, \<^verbatim>\<open>criticalFailures\<close> is the number of
  categories whose status is fail and which hold at least one error issue,
  \<^verbatim>\<open>warnings\<close> is the number of warning issues over all categories, and the level is
  high if criticalFailures > 2 or warnings > 5, else medium if criticalFailures > 0 or
  warnings > 2, else low.
\<close>

theorem risk_assessment_counts_and_level:
  "criticalFailures (assessRisk a sc) = criticalFailureCount sc
   \<and> warnings (assessRisk a sc) = warningCount sc
   \<and> level (assessRisk a sc) =
       (if criticalFailureCount sc > 2 \<or> warningCount sc > 5 then High
        else if criticalFailureCount sc > 0 \<or> warningCount sc > 2 then Medium
        else Low)"
  using assessRisk_level [of a sc]
  by (simp only: assessRisk_criticalFailures assessRisk_warnings simp_thms)

theorem risk_assessment_counts_and_level_witness:
  "criticalFailures (assessRisk (JObj []) mixed_checks) = 1
   \<and> warnings (assessRisk (JObj []) mixed_checks) = 1
   \<and> level (assessRisk (JObj []) mixed_checks) = Medium"
proof -
  have c: "criticalFailureCount mixed_checks = 1"
    by (simp add: criticalFailureCount_def mixed_checks_def)
  have w: "warningCount mixed_checks = 1"
    by (simp add: warningCount_def mixed_checks_def)
  from risk_assessment_counts_and_level [of "JObj []" mixed_checks] c w show ?thesis by simp
qed

text \<open>
  C4. For every set of category results, the recommendations are those of a first
  pass (a high-priority recommendation for each error issue of each category whose
  status is fail) followed by those of a second pass (a medium-priority
  recommendation for each warning issue of every category). A recommendation has
  priority high if and only if it comes from an error issue in a failing category;
  every high-priority recommendation stands before every medium-priority one; and
  in a category that did not fail every recommendation comes from a warning issue,
  so an error issue there yields none.
\<close>

theorem recommendations_two_passes:
  "generateRecommendations sc ra = concat (map high_recs sc) @ concat (map medium_recs sc)
   \<and> (\<forall>r. (r \<in> set (generateRecommendations sc ra) \<and> priority r = PHigh) \<longleftrightarrow>
          (\<exists>(c, chk) \<in> set sc. status chk = Fail
             \<and> (\<exists>i \<in> set (checks chk). type i = Error \<and> r = mk_rec PHigh c i)))
   \<and> (\<forall>i j. i < length (generateRecommendations sc ra)
          \<and> j < length (generateRecommendations sc ra)
          \<and> priority (generateRecommendations sc ra ! i) = PHigh
          \<and> priority (generateRecommendations sc ra ! j) = PMedium \<longrightarrow> i < j)
   \<and> (\<forall>c chk r. distinct (map fst sc) \<and> (c, chk) \<in> set sc \<and> status chk \<noteq> Fail
          \<and> r \<in> set (generateRecommendations sc ra) \<and> category r = c \<longrightarrow>
          priority r = PMedium
          \<and> (\<exists>w \<in> set (checks chk). type w = Warning \<and> r = mk_rec PMedium c w))"
proof (intro conjI allI impI)
  show "generateRecommendations sc ra = concat (map high_recs sc) @ concat (map medium_recs sc)"
    by (rule generateRecommendations_passes)
next
  fix r
  show "(r \<in> set (generateRecommendations sc ra) \<and> priority r = PHigh) \<longleftrightarrow>
          (\<exists>(c, chk) \<in> set sc. status chk = Fail
             \<and> (\<exists>i \<in> set (checks chk). type i = Error \<and> r = mk_rec PHigh c i))"
  proof -
    have "(r \<in> set (generateRecommendations sc ra) \<and> priority r = PHigh)
            \<longleftrightarrow> r \<in> set (concat (map high_recs sc))"
    proof -
      have h: "r \<in> set (concat (map high_recs sc)) \<Longrightarrow> priority r = PHigh"
        by (rule high_recs_priority)
      have m: "r \<in> set (concat (map medium_recs sc)) \<Longrightarrow> priority r \<noteq> PHigh"
        by (metis medium_recs_priority priority.distinct(1))
      from h m show ?thesis
        unfolding generateRecommendations_passes set_append Un_iff by blast
    qed
    then show ?thesis by (simp only: high_recs_source)
  qed
next
  fix i j
  assume "i < length (generateRecommendations sc ra)
          \<and> j < length (generateRecommendations sc ra)
          \<and> priority (generateRecommendations sc ra ! i) = PHigh
          \<and> priority (generateRecommendations sc ra ! j) = PMedium"
  then show "i < j"
    unfolding generateRecommendations_passes
    using highs_before_mediums [of "concat (map high_recs sc)" "concat (map medium_recs sc)" i j]
      high_recs_priority [of _ sc] medium_recs_priority [of _ sc]
    by blast
next
  fix c chk r
  assume a: "distinct (map fst sc) \<and> (c, chk) \<in> set sc \<and> status chk \<noteq> Fail
          \<and> r \<in> set (generateRecommendations sc ra) \<and> category r = c"
  have uniq: "chk' = chk" if "(c, chk') \<in> set sc" for chk'
    using a that eq_key_imp_eq_value [of sc c chk' chk] by simp
  have not_high: "r \<notin> set (concat (map high_recs sc))"
  proof
    assume "r \<in> set (concat (map high_recs sc))"
    then obtain c' chk' i where h: "(c', chk') \<in> set sc" "status chk' = Fail" "r = mk_rec PHigh c' i"
      unfolding high_recs_source by blast
    with a have "c' = c" by (simp add: mk_rec_def)
    with h(1) have "(c, chk') \<in> set sc" by simp
    then have "chk' = chk" by (rule uniq)
    with h(2) a show False by simp
  qed
  with a have m: "r \<in> set (concat (map medium_recs sc))"
    by (simp add: generateRecommendations_passes)
  then obtain c' chk' w where w: "(c', chk') \<in> set sc" "w \<in> set (checks chk')"
      "type w = Warning" "r = mk_rec PMedium c' w"
    unfolding medium_recs_source by blast
  with a have c': "c' = c" by (simp add: mk_rec_def)
  with w(1) have "(c, chk') \<in> set sc" by simp
  then have chk': "chk' = chk" by (rule uniq)
  show "priority r = PMedium" by (rule medium_recs_priority [OF m])
  from w(2,3,4) c' chk'
  show "\<exists>w \<in> set (checks chk). type w = Warning \<and> r = mk_rec PMedium c w"
    by blast
qed

theorem recommendations_two_passes_witness:
  "generateRecommendations mixed_checks (assessRisk (JObj []) mixed_checks) =
     [\<lparr>priority = PHigh, category = ''bias'', issue = ''Bias testing not conducted'',
       action = ''Review and address this safety concern''\<rparr>,
      \<lparr>priority = PMedium, category = ''robustness'',
       issue = ''Adversarial testing not conducted'',
       action = ''Review and address this safety concern''\<rparr>]"
proof -
  have "concat (map high_recs mixed_checks) @ concat (map medium_recs mixed_checks) =
     [\<lparr>priority = PHigh, category = ''bias'', issue = ''Bias testing not conducted'',
       action = ''Review and address this safety concern''\<rparr>,
      \<lparr>priority = PMedium, category = ''robustness'',
       issue = ''Adversarial testing not conducted'',
       action = ''Review and address this safety concern''\<rparr>]"
    by (simp add: mixed_checks_def high_recs_def medium_recs_def mk_rec_def
        getRecommendedAction_def actionMap_def)
  with recommendations_two_passes [of mixed_checks "assessRisk (JObj []) mixed_checks"]
  show ?thesis by simp
qed

text \<open>
  C5. After any sequence of appends to the engine's initially empty audit log, the
  log holds at most 1000 entries: it is the appended entries in their order with the
  oldest dropped, that is, the last 1000 of them. A query with no filters returns the
  log itself, so after 1500 appends it returns exactly the last 1000 entries in their
  original relative order.
\<close>

theorem audit_log_bounded_fifo:
  "length (appends xs []) \<le> 1000
   \<and> appends xs [] = drop (length xs - 1000) (map entry xs)
   \<and> getAuditLog parseDate no_filters (appends xs []) = drop (length xs - 1000) (map entry xs)
   \<and> (length xs = 1500 \<longrightarrow>
        getAuditLog parseDate no_filters (appends xs []) = drop 500 (map entry xs)
        \<and> length (getAuditLog parseDate no_filters (appends xs [])) = 1000)"
proof -
  have a: "appends xs [] = drop (length xs - 1000) (map entry xs)"
    using appends_drop [of "[]" xs] by simp
  then show ?thesis
    by (simp add: getAuditLog_no_filters)
qed

theorem audit_log_bounded_fifo_witness:
  "length (replicate 1500 sample_event) = 1500
   \<and> getAuditLog (\<lambda>s. None) no_filters (appends (replicate 1500 sample_event) [])
       = replicate 1000 (entry sample_event)
   \<and> appends [sample_event] [] =
       [\<lparr>ev_type = ''safety_validation'', ev_validationId = ''v-1'',
         ev_result = \<lparr>res_status = Compliant, res_score = 1, res_riskLevel = Low\<rparr>,
         ev_timestamp = ''2025-01-25T00:00:00.000Z'', ev_id = ''id-1''\<rparr>]"
proof -
  have l: "length (replicate 1500 sample_event) = 1500" by simp
  have d: "drop 500 (map entry (replicate 1500 sample_event)) = replicate 1000 (entry sample_event)"
    by simp
  have s: "appends [sample_event] [] =
       [\<lparr>ev_type = ''safety_validation'', ev_validationId = ''v-1'',
         ev_result = \<lparr>res_status = Compliant, res_score = 1, res_riskLevel = Low\<rparr>,
         ev_timestamp = ''2025-01-25T00:00:00.000Z'', ev_id = ''id-1''\<rparr>]"
    using audit_log_bounded_fifo [of "[sample_event]" "\<lambda>s. None"]
    by (simp add: entry_def sample_event_def)
  from audit_log_bounded_fifo [of "replicate 1500 sample_event" "\<lambda>s. None"] l
  have "getAuditLog (\<lambda>s. None) no_filters (appends (replicate 1500 sample_event) [])
       = drop 500 (map entry (replicate 1500 sample_event))"
    by blast
  then have "getAuditLog (\<lambda>s. None) no_filters (appends (replicate 1500 sample_event) [])
       = replicate 1000 (entry sample_event)"
    unfolding d .
  with l s show ?thesis by blast
qed

text \<open>
  C7. For every result that \<^verbatim>\<open>validateSafety\<close> returns, the verdict is compliant if
  and only if the compliance score is at least the engine's configured
  \<^verbatim>\<open>complianceThreshold\<close>; the call leaves the configuration as it was.
\<close>

theorem verdict_iff_threshold:
  assumes "validateSafety this vid ts eid now d ctx = Inr (res, this')"
  shows "(safetyStatus res = Compliant \<longleftrightarrow> complianceScore res \<ge> complianceThreshold (config this))
       \<and> (safetyStatus res = NonCompliant \<longleftrightarrow> complianceScore res < complianceThreshold (config this))
       \<and> config this' = config this"
  using assms
  by (auto simp: validateSafety_def bindE_def Let_def split: if_splits sum.splits)

theorem verdict_iff_threshold_witness:
  "validateSafety default_engine ''v-1'' ''t-1'' ''e-1'' ''t-2'' descriptor_conducted JUndefined
     = Inr (clean_validation default_engine ''v-1'' ''t-1'' descriptor_conducted, default_engine)
   \<and> safetyStatus (clean_validation default_engine ''v-1'' ''t-1'' descriptor_conducted) = Compliant
   \<and> complianceScore (clean_validation default_engine ''v-1'' ''t-1'' descriptor_conducted)
        \<ge> complianceThreshold (config default_engine)"
proof -
  have r: "validateSafety default_engine ''v-1'' ''t-1'' ''e-1'' ''t-2'' descriptor_conducted JUndefined
     = Inr (clean_validation default_engine ''v-1'' ''t-1'' descriptor_conducted, default_engine)"
    using validateSafety_clean [OF descriptor_conducted_flags plain_context_omitted]
    by (simp add: default_engine_config)
  have "complianceScore (clean_validation default_engine ''v-1'' ''t-1'' descriptor_conducted)
        \<ge> complianceThreshold (config default_engine)"
    by (simp add: clean_validation_def default_engine_config)
  with verdict_iff_threshold [OF r] r show ?thesis by blast
qed

text \<open>
  C6, as amended. \<^verbatim>\<open>validateSafety\<close> fails on a descriptor that is \<^verbatim>\<open>null\<close> or
  \<^verbatim>\<open>undefined\<close>, and signals it as a TypeError (the source has no InvalidInput
  error). For every other descriptor, and every context that is omitted, or is not
  \<^verbatim>\<open>null\<close> and has no truthy \<^verbatim>\<open>regulatory\<close> entry, the seven checks all return
  and \<^verbatim>\<open>validateSafety\<close> returns a result.
\<close>

theorem validateSafety_fails_only_on_nullish:
  assumes "plain_context ctx"
  shows "(nullish d \<longrightarrow> validateSafety this vid ts eid now d ctx = Inl TypeError)
       \<and> (\<not> nullish d \<longrightarrow>
            (\<exists>sc. performSafetyChecks d (if ctx = JUndefined then JObj [] else ctx) = Inr sc
                   \<and> map fst sc = map fst weights)
            \<and> (\<exists>res this'. validateSafety this vid ts eid now d ctx = Inr (res, this')))"
proof (intro conjI impI)
  assume "nullish d"
  then show "validateSafety this vid ts eid now d ctx = Inl TypeError"
    by (rule validateSafety_nullish)
next
  assume d: "\<not> nullish d"
  show "\<exists>sc. performSafetyChecks d (if ctx = JUndefined then JObj [] else ctx) = Inr sc
             \<and> map fst sc = map fst weights"
    using performSafetyChecks_inspectable [OF d plain_context_default [OF assms]]
    by (simp add: weights_def)
  show "\<exists>res this'. validateSafety this vid ts eid now d ctx = Inr (res, this')"
    using d assms by (rule validateSafety_returns)
qed

theorem validateSafety_fails_only_on_nullish_witness:
  "plain_context JUndefined
   \<and> nullish JNull
   \<and> validateSafety default_engine ''v-1'' ''t-1'' ''e-1'' ''t-2'' JNull JUndefined = Inl TypeError
   \<and> \<not> nullish (JObj [])
   \<and> (\<exists>res this'. validateSafety default_engine ''v-1'' ''t-1'' ''e-1'' ''t-2'' (JObj []) JUndefined
          = Inr (res, this'))"
proof -
  have n: "nullish JNull" and o: "\<not> nullish (JObj [])" by simp_all
  from validateSafety_fails_only_on_nullish [OF plain_context_omitted, of JNull] n
  have "validateSafety default_engine ''v-1'' ''t-1'' ''e-1'' ''t-2'' JNull JUndefined = Inl TypeError"
    by blast
  moreover from validateSafety_fails_only_on_nullish [OF plain_context_omitted, of "JObj []"] o
  have "\<exists>res this'. validateSafety default_engine ''v-1'' ''t-1'' ''e-1'' ''t-2'' (JObj []) JUndefined
          = Inr (res, this')"
    by blast
  ultimately show ?thesis using n o plain_context_omitted by blast
qed

text \<open>
  C6 as stated fails twice over: a \<^verbatim>\<open>null\<close> descriptor is signalled by a TypeError,
  not by InvalidInput, and an inspectable descriptor (the empty object) with the
  context \<^verbatim>\<open>{regulatory: 'GDPR'}\<close> makes \<^verbatim>\<open>validateSafety\<close> throw.
\<close>

theorem validateSafety_total_counterexample:
  "validateSafety default_engine ''v-1'' ''t-1'' ''e-1'' ''t-2'' JNull JUndefined = Inl TypeError
   \<and> validateSafety default_engine ''v-1'' ''t-1'' ''e-1'' ''t-2'' JNull JUndefined \<noteq> Inl InvalidInput
   \<and> \<not> nullish (JObj [])
   \<and> validateSafety default_engine ''v-1'' ''t-1'' ''e-1'' ''t-2'' (JObj [])
        (JObj [(''regulatory'', JStr ''GDPR'')]) = Inl TypeError"
  by (simp add: validateSafety_def Let_def bindE_def performSafetyChecks_regulatory)



text \<open>
  C10. The action table has entries for ethicalGuidelines, dataPrivacy and
  humanControl only, so a category outside the table gets the generic action for
  every message: every issue of the bias, transparency, robustness and accountability
  checks maps to "Review and address this safety concern", and so does the
  escalation-procedures warning of human control, which its category's entry lacks.
\<close>

theorem unmapped_issues_get_fallback:
  "map fst actionMap = [''ethicalGuidelines'', ''dataPrivacy'', ''humanControl'']
   \<and> (\<forall>c \<in> {''bias'', ''transparency'', ''robustness'', ''accountability''}.
         \<forall>m. getRecommendedAction c m = fallback_action)
   \<and> (\<forall>r. checkBias d = Inr r \<longrightarrow>
         (\<forall>i \<in> set (checks r). getRecommendedAction ''bias'' (message i) = fallback_action))
   \<and> (\<forall>r. checkTransparency d = Inr r \<longrightarrow>
         (\<forall>i \<in> set (checks r). getRecommendedAction ''transparency'' (message i) = fallback_action))
   \<and> (\<forall>r. checkRobustness d = Inr r \<longrightarrow>
         (\<forall>i \<in> set (checks r). getRecommendedAction ''robustness'' (message i) = fallback_action))
   \<and> (\<forall>r. checkAccountability d = Inr r \<longrightarrow>
         (\<forall>i \<in> set (checks r). getRecommendedAction ''accountability'' (message i) = fallback_action))
   \<and> getRecommendedAction ''humanControl'' ''Escalation procedures not defined'' = fallback_action
   \<and> fallback_action = ''Review and address this safety concern''"
proof -
  have keys: "map fst actionMap = [''ethicalGuidelines'', ''dataPrivacy'', ''humanControl'']"
    by (simp add: actionMap_def)
  have out: "getRecommendedAction c m = fallback_action"
    if "c \<in> {''bias'', ''transparency'', ''robustness'', ''accountability''}" for c m
    using that by (intro getRecommendedAction_unmapped) (auto simp: keys)
  have esc: "getRecommendedAction ''humanControl'' ''Escalation procedures not defined''
               = fallback_action"
    by (simp add: getRecommendedAction_def actionMap_def fallback_action_def)
  show ?thesis
    using keys esc out
    by (simp add: fallback_action_def)
qed

theorem unmapped_issues_get_fallback_witness:
  "checkBias (JObj []) =
     Inr \<lparr>score = 288 / 1000,
          checks = [\<lparr>type = Error, message = ''Bias testing not conducted''\<rparr>,
                    \<lparr>type = Warning, message = ''Fairness metrics not defined''\<rparr>,
                    \<lparr>type = Warning, message = ''Dataset diversity not validated''\<rparr>],
          status = Fail\<rparr>
   \<and> getRecommendedAction ''bias'' ''Bias testing not conducted''
       = ''Review and address this safety concern''
   \<and> getRecommendedAction ''bias'' ''Fairness metrics not defined''
       = ''Review and address this safety concern''
   \<and> getRecommendedAction ''bias'' ''Dataset diversity not validated''
       = ''Review and address this safety concern''"
proof -
  have b: "checkBias (JObj []) =
     Inr \<lparr>score = 288 / 1000,
          checks = [\<lparr>type = Error, message = ''Bias testing not conducted''\<rparr>,
                    \<lparr>type = Warning, message = ''Fairness metrics not defined''\<rparr>,
                    \<lparr>type = Warning, message = ''Dataset diversity not validated''\<rparr>],
          status = Fail\<rparr>"
    by (simp add: checkBias_def checkBias_locals_def check_return_def push_issue_def Let_def)
  from unmapped_issues_get_fallback [of "JObj []"]
  have f: "fallback_action = ''Review and address this safety concern''"
    and "\<forall>r. checkBias (JObj []) = Inr r \<longrightarrow>
         (\<forall>i \<in> set (checks r). getRecommendedAction ''bias'' (message i) = fallback_action)"
    by blast+
  with b have "\<forall>i \<in> set [\<lparr>type = Error, message = ''Bias testing not conducted''\<rparr>,
                    \<lparr>type = Warning, message = ''Fairness metrics not defined''\<rparr>,
                    \<lparr>type = Warning, message = ''Dataset diversity not validated''\<rparr>].
          getRecommendedAction ''bias'' (message i) = fallback_action"
    by fastforce
  with b f show ?thesis by simp
qed

end
